theory Spec2Isabelle
  imports Main "HOL-Library.Word"
begin

unbundle bit_operations_syntax

section \<open>Types supplied by other headers\<close>

type_synonym uint32_t = "32 word"
type_synonym uint64_t = "64 word"

text \<open>
  Modelled from the spec: \<^verbatim>\<open>solvertypes.h\<close> is not among the sources at hand. The spec
  describes a literal as a copyable value with a reversible packed-integer encoding and a
  total order. \<^verbatim>\<open>watched.h\<close> stores \<^verbatim>\<open>lit.toInt()\<close> in the 32-bit \<^verbatim>\<open>data1\<close> and reads it back
  with \<^verbatim>\<open>Lit::toLit\<close>, so a literal is its 32-bit encoding, ordered by that encoding.
\<close>

datatype Lit = Lit (toInt: uint32_t)

definition toLit :: "uint32_t \<Rightarrow> Lit" where
  "toLit d = Lit d"

definition Lit_less :: "Lit \<Rightarrow> Lit \<Rightarrow> bool" where
  "Lit_less a b = (toInt a < toInt b)"

text \<open>
  Modelled from the spec: \<^verbatim>\<open>clabstraction.h\<close> is not among the sources at hand. The
  abstraction signature is a fixed-width bit pattern stored verbatim in \<^verbatim>\<open>data1\<close>.
\<close>

type_synonym cl_abst_type = uint32_t

text \<open>
  \<^verbatim>\<open>ClOffset\<close> (\<^verbatim>\<open>cloffset.h\<close>) and \<^verbatim>\<open>EFFECTIVELY_USEABLE_BITS\<close> (\<^verbatim>\<open>constants.h\<close>) are not
  among the sources at hand. \<^verbatim>\<open>ClOffset\<close> is an unsigned integer type of at most 64 bits,
  held here in a 64-bit carrier. The bit-field \<^verbatim>\<open>ClOffset data2:EFFECTIVELY_USEABLE_BITS\<close>
  is the low \<open>bits\<close> bits of that carrier, and \<open>bits\<close> (at most 64) is a parameter of
  every operation that stores into the field: an unsigned value assigned to a bit-field is
  reduced modulo \<open>2 ^ bits\<close>.
\<close>

type_synonym ClOffset = uint64_t

definition bitfield :: "nat \<Rightarrow> uint64_t \<Rightarrow> uint64_t" where
  "bitfield bits v = take_bit bits v"

section \<open>Enumerations\<close>

datatype WatchType = watch_clause_t | watch_binary_t | watch_bnn_t | watch_idx_t

datatype BNNPropType = bnn_pos_t | bnn_neg_t | bnn_out_t

fun BNNPropType_val :: "BNNPropType \<Rightarrow> uint64_t" where
  "BNNPropType_val bnn_pos_t = 0"
| "BNNPropType_val bnn_neg_t = 1"
| "BNNPropType_val bnn_out_t = 2"

text \<open>The cast \<^verbatim>\<open>(BNNPropType)data2\<close>; a value that names no enumerator is \<open>None\<close>.\<close>

definition BNNPropType_cast :: "uint64_t \<Rightarrow> BNNPropType option" where
  "BNNPropType_cast v =
     (if v = 0 then Some bnn_pos_t
      else if v = 1 then Some bnn_neg_t
      else if v = 2 then Some bnn_out_t
      else None)"

section \<open>Assertions\<close>

text \<open>
  \<^verbatim>\<open>assert\<close> is modelled as compiled in: a failed assertion ends the call with
  \<open>AssertionFailed\<close>.
\<close>

datatype error = AssertionFailed

definition assert_c :: "bool \<Rightarrow> error + unit" where
  "assert_c c = (if c then Inr () else Inl AssertionFailed)"

text \<open>
  \<^verbatim>\<open>DEBUG_WATCHED_DO(x)\<close> comes from \<^verbatim>\<open>constants.h\<close>; it runs \<open>x\<close> only when
  \<^verbatim>\<open>DEBUG_WATCHED\<close> is defined. The flag \<open>dbg\<close> is a parameter of every operation that
  uses the macro.
\<close>

definition DEBUG_WATCHED_DO :: "bool \<Rightarrow> (error + unit) \<Rightarrow> error + unit" where
  "DEBUG_WATCHED_DO dbg x = (if dbg then x else Inr ())"

definition then_res :: "(error + unit) \<Rightarrow> (error + 'a) \<Rightarrow> error + 'a" where
  "then_res x k = (case x of Inl e \<Rightarrow> Inl e | Inr _ \<Rightarrow> k)"

definition bind_res :: "(error + 'a) \<Rightarrow> ('a \<Rightarrow> error + 'b) \<Rightarrow> error + 'b" where
  "bind_res x k = (case x of Inl e \<Rightarrow> Inl e | Inr v \<Rightarrow> k v)"

section \<open>The packed watch record\<close>

text \<open>
  The two-bit field \<^verbatim>\<open>type\<close> only ever receives a \<^verbatim>\<open>WatchType\<close>, whose four
  enumerators are the four values of two bits; it is kept as the enumeration.
\<close>

record Watched =
  data1 :: uint32_t
  type :: WatchType
  data2 :: uint64_t

definition Watched_clause_lit :: "nat \<Rightarrow> ClOffset \<Rightarrow> Lit \<Rightarrow> Watched" where
  "Watched_clause_lit bits offset blockedLit =
     \<lparr>data1 = toInt blockedLit, type = watch_clause_t, data2 = bitfield bits offset\<rparr>"

definition Watched_clause_abst :: "nat \<Rightarrow> ClOffset \<Rightarrow> cl_abst_type \<Rightarrow> Watched" where
  "Watched_clause_abst bits offset abst =
     \<lparr>data1 = abst, type = watch_clause_t, data2 = bitfield bits offset\<rparr>"

text \<open>
  The index constructor leaves \<^verbatim>\<open>data2\<close> uninitialised: \<open>junk\<close> stands for whatever the
  storage held.
\<close>

definition Watched_idx :: "nat \<Rightarrow> uint64_t \<Rightarrow> uint32_t \<Rightarrow> WatchType \<Rightarrow> error + Watched" where
  "Watched_idx bits junk idx t =
     then_res (assert_c (t = watch_idx_t))
       (Inr \<lparr>data1 = idx, type = t, data2 = bitfield bits junk\<rparr>)"

definition Watched_bnn ::
  "bool \<Rightarrow> nat \<Rightarrow> uint32_t \<Rightarrow> WatchType \<Rightarrow> BNNPropType \<Rightarrow> error + Watched" where
  "Watched_bnn dbg bits idx t bnn_p_t =
     then_res (DEBUG_WATCHED_DO dbg (assert_c (t = watch_bnn_t)))
       (Inr \<lparr>data1 = idx, type = t, data2 = bitfield bits (BNNPropType_val bnn_p_t)\<rparr>)"

definition Watched_default :: "nat \<Rightarrow> Watched" where
  "Watched_default bits =
     \<lparr>data1 = - 1, type = watch_clause_t,
      data2 = bitfield bits (ucast (drop_bit 2 (- 1 :: uint32_t)))\<rparr>"

definition Watched_bin :: "nat \<Rightarrow> Lit \<Rightarrow> bool \<Rightarrow> uint64_t \<Rightarrow> Watched" where
  "Watched_bin bits lit red ID =
     \<lparr>data1 = toInt lit, type = watch_binary_t,
      data2 = bitfield bits (of_bool red OR push_bit 2 ID)\<rparr>"

definition getType :: "Watched \<Rightarrow> WatchType" where
  "getType w = type w"

definition isBin :: "Watched \<Rightarrow> bool" where
  "isBin w = (type w = watch_binary_t)"

definition isClause :: "Watched \<Rightarrow> bool" where
  "isClause w = (type w = watch_clause_t)"

definition isIdx :: "Watched \<Rightarrow> bool" where
  "isIdx w = (type w = watch_idx_t)"

definition isBNN :: "Watched \<Rightarrow> bool" where
  "isBNN w = (type w = watch_bnn_t)"

definition setBlockedLit :: "bool \<Rightarrow> Lit \<Rightarrow> Watched \<Rightarrow> error + Watched" where
  "setBlockedLit dbg blockedLit w =
     then_res (DEBUG_WATCHED_DO dbg (assert_c (type w = watch_clause_t)))
       (Inr (w\<lparr>data1 := toInt blockedLit\<rparr>))"

definition get_idx :: "bool \<Rightarrow> Watched \<Rightarrow> error + uint32_t" where
  "get_idx dbg w =
     then_res (DEBUG_WATCHED_DO dbg (assert_c (type w = watch_idx_t))) (Inr (data1 w))"

definition get_bnn :: "bool \<Rightarrow> Watched \<Rightarrow> error + uint32_t" where
  "get_bnn dbg w =
     then_res (DEBUG_WATCHED_DO dbg (assert_c (type w = watch_bnn_t))) (Inr (data1 w))"

definition get_bnn_prop_t :: "bool \<Rightarrow> Watched \<Rightarrow> error + BNNPropType option" where
  "get_bnn_prop_t dbg w =
     then_res (DEBUG_WATCHED_DO dbg (assert_c (type w = watch_bnn_t)))
       (Inr (BNNPropType_cast (data2 w)))"

definition lit2 :: "bool \<Rightarrow> Watched \<Rightarrow> error + Lit" where
  "lit2 dbg w =
     then_res (DEBUG_WATCHED_DO dbg (assert_c (isBin w))) (Inr (toLit (data1 w)))"

definition setLit2 :: "bool \<Rightarrow> Lit \<Rightarrow> Watched \<Rightarrow> error + Watched" where
  "setLit2 dbg lit w =
     then_res (DEBUG_WATCHED_DO dbg (assert_c (isBin w))) (Inr (w\<lparr>data1 := toInt lit\<rparr>))"

definition red :: "bool \<Rightarrow> Watched \<Rightarrow> error + bool" where
  "red dbg w =
     then_res (DEBUG_WATCHED_DO dbg (assert_c (isBin w))) (Inr (data2 w AND 1 \<noteq> 0))"

definition get_ID :: "bool \<Rightarrow> Watched \<Rightarrow> error + uint64_t" where
  "get_ID dbg w =
     then_res (DEBUG_WATCHED_DO dbg (assert_c (isBin w))) (Inr (drop_bit 2 (data2 w)))"

text \<open>
  \<^verbatim>\<open>data2 &= (~(1U))\<close>: the mask is the 32-bit \<^verbatim>\<open>unsigned\<close> value \<^verbatim>\<open>0xFFFFFFFE\<close>; where
  the field is wider than 32 bits the mask is zero-extended before the conjunction.
\<close>

definition setRed :: "bool \<Rightarrow> nat \<Rightarrow> bool \<Rightarrow> Watched \<Rightarrow> error + Watched" where
  "setRed dbg bits toSet w =
     then_res (DEBUG_WATCHED_DO dbg (assert_c (isBin w)))
    (then_res (DEBUG_WATCHED_DO dbg (bind_res (red dbg w) assert_c))
    (then_res (assert_c (toSet = False))
       (Inr (w\<lparr>data2 := bitfield bits (data2 w AND ucast (NOT (1 :: uint32_t)))\<rparr>))))"

definition mark_bin_cl :: "bool \<Rightarrow> nat \<Rightarrow> Watched \<Rightarrow> error + Watched" where
  "mark_bin_cl dbg bits w =
     then_res (DEBUG_WATCHED_DO dbg (assert_c (isBin w)))
       (Inr (w\<lparr>data2 := bitfield bits (data2 w OR 2)\<rparr>))"

definition unmark_bin_cl :: "bool \<Rightarrow> nat \<Rightarrow> Watched \<Rightarrow> error + Watched" where
  "unmark_bin_cl dbg bits w =
     then_res (DEBUG_WATCHED_DO dbg (assert_c (isBin w)))
       (Inr (w\<lparr>data2 := bitfield bits (data2 w AND NOT (2 :: uint64_t))\<rparr>))"

definition bin_cl_marked :: "bool \<Rightarrow> Watched \<Rightarrow> error + bool" where
  "bin_cl_marked dbg w =
     then_res (DEBUG_WATCHED_DO dbg (assert_c (isBin w))) (Inr (data2 w AND 2 \<noteq> 0))"

definition getBlockedLit :: "bool \<Rightarrow> Watched \<Rightarrow> error + Lit" where
  "getBlockedLit dbg w =
     then_res (DEBUG_WATCHED_DO dbg (assert_c (isClause w))) (Inr (toLit (data1 w)))"

definition getAbst :: "bool \<Rightarrow> Watched \<Rightarrow> error + cl_abst_type" where
  "getAbst dbg w =
     then_res (DEBUG_WATCHED_DO dbg (assert_c (isClause w))) (Inr (data1 w))"

definition get_offset :: "bool \<Rightarrow> Watched \<Rightarrow> error + ClOffset" where
  "get_offset dbg w =
     then_res (DEBUG_WATCHED_DO dbg (assert_c (isClause w))) (Inr (data2 w))"

definition Watched_eq :: "Watched \<Rightarrow> Watched \<Rightarrow> bool" where
  "Watched_eq a b = (data1 a = data1 b \<and> data2 a = data2 b \<and> type a = type b)"

definition Watched_neq :: "Watched \<Rightarrow> Watched \<Rightarrow> bool" where
  "Watched_neq a b = (\<not> Watched_eq a b)"

section \<open>Occurrence pairs\<close>

record OccurClause =
  lit :: Lit
  ws :: Watched

definition OccurClause_eq :: "OccurClause \<Rightarrow> OccurClause \<Rightarrow> bool" where
  "OccurClause_eq a b = (lit a = lit b \<and> Watched_eq (ws a) (ws b))"

definition OccurClause_less :: "bool \<Rightarrow> OccurClause \<Rightarrow> OccurClause \<Rightarrow> error + bool" where
  "OccurClause_less dbg a b =
     (if isBin (ws a) \<and> \<not> isBin (ws b) then Inr True
      else if \<not> isBin (ws a) \<and> isBin (ws b) then Inr False
      else if isBin (ws a) then
        then_res (assert_c (isBin (ws b)))
          (bind_res (lit2 dbg (ws a)) (\<lambda>la.
           bind_res (lit2 dbg (ws b)) (\<lambda>lb.
           Inr (Lit_less la lb))))
      else
        then_res (assert_c (\<not> isBNN (ws a)))
       (then_res (assert_c (\<not> isBNN (ws b)))
          (bind_res (get_offset dbg (ws a)) (\<lambda>oa.
           bind_res (get_offset dbg (ws b)) (\<lambda>ob.
           Inr (oa < ob))))))"

section \<open>The canonical watch-list comparator\<close>

definition WatchSorterBinTriLong :: "bool \<Rightarrow> Watched \<Rightarrow> Watched \<Rightarrow> error + bool" where
  "WatchSorterBinTriLong dbg a b =
     then_res (assert_c (\<not> isIdx a))
    (then_res (assert_c (\<not> isIdx b))
       (if isClause a \<or> isBNN a then Inr False
        else if isClause b \<or> isBNN b then Inr True
        else
          then_res (assert_c (isBin a))
         (then_res (assert_c (isBin b))
            (bind_res (lit2 dbg a) (\<lambda>la.
             bind_res (lit2 dbg b) (\<lambda>lb.
             if la \<noteq> lb then Inr (Lit_less la lb)
             else
               bind_res (red dbg a) (\<lambda>ra.
               bind_res (red dbg b) (\<lambda>rb.
               if ra \<noteq> rb then Inr (\<not> ra)
               else
                 bind_res (get_ID dbg a) (\<lambda>ia.
                 bind_res (get_ID dbg b) (\<lambda>ib.
                 Inr (ia < ib)))))))))))"

section \<open>Unfolding rules and facts about the bit-field\<close>

lemmas res_defs = then_res_def bind_res_def assert_c_def DEBUG_WATCHED_DO_def
lemmas tag_defs = isBin_def isClause_def isIdx_def isBNN_def getType_def
lemmas acc_defs = lit2_def red_def get_ID_def get_offset_def

lemma take_bit_unat_less: "unat (x :: uint64_t) < 2 ^ n \<Longrightarrow> take_bit n x = x"
  by (metis take_bit_nat_eq_self_iff unsigned_take_bit_eq word_unat_eq_iff)

lemma get_ID_Watched_bin:
  "bits \<le> 64 \<Longrightarrow> get_ID dbg (Watched_bin bits l r ID) = Inr (take_bit (bits - 2) ID)"
  apply (simp add: get_ID_def Watched_bin_def res_defs tag_defs bitfield_def)
  apply (rule bit_eqI)
  apply (auto simp add: bit_simps)
  done

lemma red_Watched_bin: "0 < bits \<Longrightarrow> red dbg (Watched_bin bits l r ID) = Inr r"
  apply (simp add: red_def Watched_bin_def res_defs tag_defs bitfield_def)
  apply (simp add: and_one_eq flip: even_iff_mod_2_eq_zero)
  done

lemma lit2_Watched_bin: "lit2 dbg (Watched_bin bits l r ID) = Inr l"
  by (simp add: lit2_def Watched_bin_def res_defs tag_defs toLit_def)

lemma BNNPropType_cast_val:
  assumes "2 \<le> bits"
  shows "BNNPropType_cast (take_bit bits (BNNPropType_val role)) = Some role"
proof -
  have "unat (BNNPropType_val role) < 2 ^ 2"
    by (cases role) simp_all
  also have "(2::nat) ^ 2 \<le> 2 ^ bits"
    using assms by (intro power_increasing) simp_all
  finally have "take_bit bits (BNNPropType_val role) = BNNPropType_val role"
    by (rule take_bit_unat_less)
  then show ?thesis
    by (cases role) (simp_all add: BNNPropType_cast_def)
qed

section \<open>Round trip through the constructors\<close>

text \<open>
  C1 (as amended). Every constructor followed by the accessors of its variant gives the
  constructor's arguments back, for either setting of the debug checks and every bit budget
  from 2 to 64: the binary constructor when the identifier fits in the budget less the two
  flag bits; both long-clause constructors when the offset fits in the budget (the blocking
  literal or abstraction comes back from the first word, the offset from the second); the
  index constructor called with the index tag; the BNN constructor called with the BNN tag.
\<close>

theorem C1_roundtrip:
  assumes "2 \<le> bits" and "bits \<le> 64"
  shows "(unat ID < 2 ^ (bits - 2) \<longrightarrow>
            lit2 dbg (Watched_bin bits l r ID) = Inr l
          \<and> red dbg (Watched_bin bits l r ID) = Inr r
          \<and> get_ID dbg (Watched_bin bits l r ID) = Inr ID)
       \<and> (unat offset < 2 ^ bits \<longrightarrow>
            getBlockedLit dbg (Watched_clause_lit bits offset l) = Inr l
          \<and> get_offset dbg (Watched_clause_lit bits offset l) = Inr offset
          \<and> getAbst dbg (Watched_clause_abst bits offset abst) = Inr abst
          \<and> get_offset dbg (Watched_clause_abst bits offset abst) = Inr offset)
       \<and> (\<exists>w. Watched_idx bits junk idx watch_idx_t = Inr w \<and> get_idx dbg w = Inr idx)
       \<and> (\<exists>w. Watched_bnn dbg bits idx watch_bnn_t role = Inr w
              \<and> get_bnn dbg w = Inr idx \<and> get_bnn_prop_t dbg w = Inr (Some role))"
proof (intro conjI impI)
  assume "unat ID < 2 ^ (bits - 2)"
  then show "get_ID dbg (Watched_bin bits l r ID) = Inr ID"
    using assms by (simp add: get_ID_Watched_bin take_bit_unat_less)
next
  show "red dbg (Watched_bin bits l r ID) = Inr r"
    using assms by (simp add: red_Watched_bin)
next
  show "lit2 dbg (Watched_bin bits l r ID) = Inr l"
    by (rule lit2_Watched_bin)
next
  show "getBlockedLit dbg (Watched_clause_lit bits offset l) = Inr l"
    by (simp add: getBlockedLit_def Watched_clause_lit_def res_defs tag_defs toLit_def)
next
  assume "unat offset < 2 ^ bits"
  then show "get_offset dbg (Watched_clause_lit bits offset l) = Inr offset"
    by (simp add: get_offset_def Watched_clause_lit_def res_defs tag_defs bitfield_def
        take_bit_unat_less)
next
  show "getAbst dbg (Watched_clause_abst bits offset abst) = Inr abst"
    by (simp add: getAbst_def Watched_clause_abst_def res_defs tag_defs)
next
  assume "unat offset < 2 ^ bits"
  then show "get_offset dbg (Watched_clause_abst bits offset abst) = Inr offset"
    by (simp add: get_offset_def Watched_clause_abst_def res_defs tag_defs bitfield_def
        take_bit_unat_less)
next
  show "\<exists>w. Watched_idx bits junk idx watch_idx_t = Inr w \<and> get_idx dbg w = Inr idx"
    by (simp add: Watched_idx_def get_idx_def res_defs)
next
  show "\<exists>w. Watched_bnn dbg bits idx watch_bnn_t role = Inr w
              \<and> get_bnn dbg w = Inr idx \<and> get_bnn_prop_t dbg w = Inr (Some role)"
    using assms(1)
    by (simp add: Watched_bnn_def get_bnn_def get_bnn_prop_t_def res_defs bitfield_def
        BNNPropType_cast_val)
qed

text \<open>The round trip at a 30-bit budget, with the debug checks on.\<close>

theorem C1_roundtrip_witness:
  "(2::nat) \<le> 30 \<and> (30::nat) \<le> 64
 \<and> unat (12345 :: uint64_t) < 2 ^ (30 - 2) \<and> unat (5 :: ClOffset) < 2 ^ 30
 \<and> lit2 True (Watched_bin 30 (Lit 9) True 12345) = Inr (Lit 9)
 \<and> red True (Watched_bin 30 (Lit 9) True 12345) = Inr True
 \<and> get_ID True (Watched_bin 30 (Lit 9) True 12345) = Inr 12345
 \<and> getBlockedLit True (Watched_clause_lit 30 5 (Lit 9)) = Inr (Lit 9)
 \<and> get_offset True (Watched_clause_lit 30 5 (Lit 9)) = Inr 5
 \<and> getAbst True (Watched_clause_abst 30 5 77) = Inr 77
 \<and> get_offset True (Watched_clause_abst 30 5 77) = Inr 5
 \<and> (\<exists>w. Watched_idx 30 0 4 watch_idx_t = Inr w \<and> get_idx True w = Inr 4)
 \<and> (\<exists>w. Watched_bnn True 30 4 watch_bnn_t bnn_out_t = Inr w
        \<and> get_bnn True w = Inr 4 \<and> get_bnn_prop_t True w = Inr (Some bnn_out_t))"
proof -
  have h: "(2::nat) \<le> 30" "(30::nat) \<le> 64" by simp_all
  have i: "unat (12345 :: uint64_t) < 2 ^ (30 - 2)" and j: "unat (5 :: ClOffset) < 2 ^ 30"
    by simp_all
  show ?thesis
    using h i j C1_roundtrip [OF h, of 12345 True "Lit 9" True 5 77 0 4 bnn_out_t]
    by simp
qed

text \<open>
  The claim as first stated puts no bound on the offset. An offset of \<open>2 ^ 30\<close> is lost by
  a 30-bit field: the record reads back offset 0.
\<close>

theorem C1_offset_counterexample:
  "get_offset False (Watched_clause_lit 30 (2 ^ 30) (Lit 7)) = Inr 0
 \<and> get_offset False (Watched_clause_lit 30 (2 ^ 30) (Lit 7)) \<noteq> Inr (2 ^ 30)"
  by (simp add: get_offset_def Watched_clause_lit_def res_defs tag_defs bitfield_def)

section \<open>The canonical comparator by cases\<close>

lemma WatchSorter_left_nonbin:
  "isClause a \<or> isBNN a \<Longrightarrow> \<not> isIdx b \<Longrightarrow> WatchSorterBinTriLong dbg a b = Inr False"
  by (auto simp add: WatchSorterBinTriLong_def res_defs tag_defs)

lemma WatchSorter_left_nonbin_not_less:
  "isClause a \<or> isBNN a \<Longrightarrow> WatchSorterBinTriLong dbg a b \<noteq> Inr True"
  by (auto simp add: WatchSorterBinTriLong_def res_defs tag_defs)

lemma WatchSorter_bin_nonbin:
  "isBin a \<Longrightarrow> isClause b \<or> isBNN b \<Longrightarrow> WatchSorterBinTriLong dbg a b = Inr True"
  by (auto simp add: WatchSorterBinTriLong_def res_defs tag_defs)

lemma WatchSorter_bin_bin:
  "isBin a \<Longrightarrow> isBin b \<Longrightarrow>
   WatchSorterBinTriLong dbg a b =
     Inr (data1 a < data1 b
        \<or> data1 a = data1 b \<and> (data2 a AND 1 = 0) \<and> (data2 b AND 1 \<noteq> 0)
        \<or> data1 a = data1 b \<and> ((data2 a AND 1 = 0) = (data2 b AND 1 = 0))
            \<and> drop_bit 2 (data2 a) < drop_bit 2 (data2 b))"
  by (auto simp add: WatchSorterBinTriLong_def res_defs tag_defs acc_defs toLit_def Lit_less_def)

lemma bin_accessors:
  "isBin a \<Longrightarrow> lit2 dbg a = Inr (Lit (data1 a)) \<and> red dbg a = Inr (data2 a AND 1 \<noteq> 0)
     \<and> get_ID dbg a = Inr (drop_bit 2 (data2 a))"
  by (simp add: res_defs acc_defs toLit_def)

text \<open>
  C2. The canonical watch-list comparator, for either setting of the debug checks:
  (a) a left operand tagged clause or BNN is never less than the right operand, and the
  comparator returns false whenever the right operand passes the index assertion; a binary
  left operand is less than a right operand tagged clause or BNN;
  (b) between two binary records the result is: the left other-literal is smaller, or the
  other-literals are equal and the left is irreducible while the right is redundant, or
  both keys are equal and the left identifier is smaller.
\<close>

theorem C2_comparator_cases:
  "(isClause a \<or> isBNN a \<longrightarrow>
      WatchSorterBinTriLong dbg a b \<noteq> Inr True
    \<and> (\<not> isIdx b \<longrightarrow> WatchSorterBinTriLong dbg a b = Inr False))
 \<and> (isBin a \<and> (isClause b \<or> isBNN b) \<longrightarrow> WatchSorterBinTriLong dbg a b = Inr True)
 \<and> (isBin a \<and> isBin b \<longrightarrow>
      (\<exists>la lb ra rb ia ib.
          lit2 dbg a = Inr la \<and> lit2 dbg b = Inr lb
        \<and> red dbg a = Inr ra \<and> red dbg b = Inr rb
        \<and> get_ID dbg a = Inr ia \<and> get_ID dbg b = Inr ib
        \<and> WatchSorterBinTriLong dbg a b =
            Inr (Lit_less la lb
               \<or> la = lb \<and> \<not> ra \<and> rb
               \<or> la = lb \<and> ra = rb \<and> ia < ib)))"
proof (intro conjI impI)
  assume "isClause a \<or> isBNN a"
  then show "WatchSorterBinTriLong dbg a b \<noteq> Inr True"
    by (rule WatchSorter_left_nonbin_not_less)
next
  assume "isClause a \<or> isBNN a" and "\<not> isIdx b"
  then show "WatchSorterBinTriLong dbg a b = Inr False"
    by (rule WatchSorter_left_nonbin)
next
  assume "isBin a \<and> (isClause b \<or> isBNN b)"
  then show "WatchSorterBinTriLong dbg a b = Inr True"
    by (simp add: WatchSorter_bin_nonbin)
next
  assume ab: "isBin a \<and> isBin b"
  then have a: "isBin a" and b: "isBin b" by simp_all
  show "\<exists>la lb ra rb ia ib.
          lit2 dbg a = Inr la \<and> lit2 dbg b = Inr lb
        \<and> red dbg a = Inr ra \<and> red dbg b = Inr rb
        \<and> get_ID dbg a = Inr ia \<and> get_ID dbg b = Inr ib
        \<and> WatchSorterBinTriLong dbg a b =
            Inr (Lit_less la lb
               \<or> la = lb \<and> \<not> ra \<and> rb
               \<or> la = lb \<and> ra = rb \<and> ia < ib)"
    using bin_accessors [OF a, of dbg] bin_accessors [OF b, of dbg]
    by (auto simp add: WatchSorter_bin_bin [OF a b] Lit_less_def)
qed

text \<open>
  The three cases of C2 on a long-clause record and two binary records.
\<close>

theorem C2_comparator_cases_witness:
  "isClause (Watched_clause_lit 30 5 (Lit 1))
 \<and> WatchSorterBinTriLong True (Watched_clause_lit 30 5 (Lit 1)) (Watched_bin 30 (Lit 3) False 7) = Inr False
 \<and> isBin (Watched_bin 30 (Lit 3) False 7)
 \<and> WatchSorterBinTriLong True (Watched_bin 30 (Lit 3) False 7) (Watched_clause_lit 30 5 (Lit 1)) = Inr True
 \<and> isBin (Watched_bin 30 (Lit 3) True 2)
 \<and> WatchSorterBinTriLong True (Watched_bin 30 (Lit 3) False 7) (Watched_bin 30 (Lit 3) True 2) = Inr True
 \<and> WatchSorterBinTriLong True (Watched_bin 30 (Lit 3) True 2) (Watched_bin 30 (Lit 3) False 7) = Inr False"
proof -
  let ?c = "Watched_clause_lit 30 5 (Lit 1)"
  let ?p = "Watched_bin 30 (Lit 3) False 7"
  let ?q = "Watched_bin 30 (Lit 3) True 2"
  have c: "isClause ?c" and nc: "\<not> isIdx ?c"
    by (simp_all add: Watched_clause_lit_def tag_defs)
  have p: "isBin ?p" and np: "\<not> isIdx ?p" and q: "isBin ?q"
    by (simp_all add: Watched_bin_def tag_defs)
  have lp: "lit2 True ?p = Inr (Lit 3)" and lq: "lit2 True ?q = Inr (Lit 3)"
    by (simp_all add: lit2_Watched_bin)
  have rp: "red True ?p = Inr False" and rq: "red True ?q = Inr True"
    by (simp_all add: red_Watched_bin)
  have 1: "WatchSorterBinTriLong True ?c ?p = Inr False"
    using C2_comparator_cases [where a = ?c and b = ?p and dbg = True] c np by simp
  have 2: "WatchSorterBinTriLong True ?p ?c = Inr True"
    using C2_comparator_cases [where a = ?p and b = ?c and dbg = True] c p by simp
  have 3: "WatchSorterBinTriLong True ?p ?q = Inr True"
    using C2_comparator_cases [where a = ?p and b = ?q and dbg = True] p q lp lq rp rq by auto
  have 4: "WatchSorterBinTriLong True ?q ?p = Inr False"
    using C2_comparator_cases [where a = ?q and b = ?p and dbg = True] p q lp lq rp rq by (auto simp add: Lit_less_def)
  from c p q 1 2 3 4 show ?thesis by simp
qed

section \<open>The canonical comparator is a strict weak order\<close>

lemma WatchSorter_closed:
  assumes "isBin a \<or> isClause a" and "isBin b \<or> isClause b"
  shows "WatchSorterBinTriLong dbg a b =
     Inr (isBin a \<and> (isClause b \<or>
         (data1 a < data1 b
        \<or> data1 a = data1 b \<and> (data2 a AND 1 = 0) \<and> (data2 b AND 1 \<noteq> 0)
        \<or> data1 a = data1 b \<and> ((data2 a AND 1 = 0) = (data2 b AND 1 = 0))
            \<and> drop_bit 2 (data2 a) < drop_bit 2 (data2 b))))"
proof (cases "isBin a")
  case a: True
  show ?thesis
  proof (cases "isBin b")
    case True
    with a show ?thesis by (simp add: WatchSorter_bin_bin tag_defs)
  next
    case False
    with assms have "isClause b" by simp
    with a show ?thesis by (simp add: WatchSorter_bin_nonbin)
  qed
next
  case False
  with assms have c: "isClause a" by simp
  have "\<not> isIdx b" using assms(2) by (auto simp add: tag_defs)
  with c False show ?thesis by (simp add: WatchSorter_left_nonbin)
qed

lemma lex3_irrefl:
  fixes x1 :: "'a::linorder" and x3 :: "'b::linorder"
  shows "\<not> (x1 < x1 \<or> x1 = x1 \<and> x2 \<and> \<not> x2 \<or> x1 = x1 \<and> (x2 = x2) \<and> x3 < x3)"
  by simp

lemma lex3_asym:
  fixes x1 y1 :: "'a::linorder" and x3 y3 :: "'b::linorder"
  assumes "x1 < y1 \<or> x1 = y1 \<and> x2 \<and> \<not> y2 \<or> x1 = y1 \<and> (x2 = y2) \<and> x3 < y3"
  shows "\<not> (y1 < x1 \<or> y1 = x1 \<and> y2 \<and> \<not> x2 \<or> y1 = x1 \<and> (y2 = x2) \<and> y3 < x3)"
  using assms by auto

lemma lex3_trans:
  fixes x1 y1 z1 :: "'a::linorder" and x3 y3 z3 :: "'b::linorder"
  assumes "x1 < y1 \<or> x1 = y1 \<and> x2 \<and> \<not> y2 \<or> x1 = y1 \<and> (x2 = y2) \<and> x3 < y3"
    and "y1 < z1 \<or> y1 = z1 \<and> y2 \<and> \<not> z2 \<or> y1 = z1 \<and> (y2 = z2) \<and> y3 < z3"
  shows "x1 < z1 \<or> x1 = z1 \<and> x2 \<and> \<not> z2 \<or> x1 = z1 \<and> (x2 = z2) \<and> x3 < z3"
  using assms by (elim disjE conjE) auto

lemma lex3_incomparable:
  fixes x1 y1 :: "'a::linorder" and x3 y3 :: "'b::linorder"
  shows "(\<not> (x1 < y1 \<or> x1 = y1 \<and> x2 \<and> \<not> y2 \<or> x1 = y1 \<and> (x2 = y2) \<and> x3 < y3)
        \<and> \<not> (y1 < x1 \<or> y1 = x1 \<and> y2 \<and> \<not> x2 \<or> y1 = x1 \<and> (y2 = x2) \<and> y3 < x3))
       = (x1 = y1 \<and> x2 = y2 \<and> x3 = y3)"
  by (cases x1 y1 rule: linorder_cases; cases x3 y3 rule: linorder_cases; cases x2; cases y2; auto)

text \<open>
  C6. On records tagged binary or long-clause the canonical comparator always returns a
  value, and that value is a strict weak order: no record is less than itself, \<open>a < b\<close>
  excludes \<open>b < a\<close>, the order is transitive, and being unordered either way is
  transitive.
\<close>

theorem C6_strict_weak_order:
  assumes a: "isBin a \<or> isClause a" and b: "isBin b \<or> isClause b" and c: "isBin c \<or> isClause c"
  shows "(\<exists>r. WatchSorterBinTriLong dbg a b = Inr r)
       \<and> WatchSorterBinTriLong dbg a a = Inr False
       \<and> (WatchSorterBinTriLong dbg a b = Inr True \<longrightarrow> WatchSorterBinTriLong dbg b a = Inr False)
       \<and> (WatchSorterBinTriLong dbg a b = Inr True \<and> WatchSorterBinTriLong dbg b c = Inr True
            \<longrightarrow> WatchSorterBinTriLong dbg a c = Inr True)
       \<and> (WatchSorterBinTriLong dbg a b = Inr False \<and> WatchSorterBinTriLong dbg b a = Inr False
          \<and> WatchSorterBinTriLong dbg b c = Inr False \<and> WatchSorterBinTriLong dbg c b = Inr False
            \<longrightarrow> WatchSorterBinTriLong dbg a c = Inr False \<and> WatchSorterBinTriLong dbg c a = Inr False)"
proof -
  define L where "L x y =
         (data1 x < data1 y
        \<or> data1 x = data1 y \<and> (data2 x AND 1 = 0) \<and> \<not> (data2 y AND 1 = 0)
        \<or> data1 x = data1 y \<and> ((data2 x AND 1 = 0) = (data2 y AND 1 = 0))
            \<and> drop_bit 2 (data2 x) < drop_bit 2 (data2 y))" for x y :: Watched
  define K where "K x = (data1 x, data2 x AND 1 = 0, drop_bit 2 (data2 x))" for x :: Watched
  have irrefl: "\<not> L x x" for x
    unfolding L_def by simp
  have asym: "L x y \<Longrightarrow> \<not> L y x" for x y
    unfolding L_def by (rule lex3_asym)
  have trans: "L x y \<Longrightarrow> L y z \<Longrightarrow> L x z" for x y z
    unfolding L_def by (rule lex3_trans)
  have inc: "(\<not> L x y \<and> \<not> L y x) = (K x = K y)" for x y
    unfolding L_def K_def prod.inject by (rule lex3_incomparable)
  have excl: "isBin x \<Longrightarrow> \<not> isClause x" for x
    by (simp add: tag_defs)
  have cl: "WatchSorterBinTriLong dbg x y = Inr (isBin x \<and> (isClause y \<or> L x y))"
    if "isBin x \<or> isClause x" and "isBin y \<or> isClause y" for x y
    unfolding L_def using that by (rule WatchSorter_closed)
  have 1: "\<exists>r. WatchSorterBinTriLong dbg a b = Inr r"
    by (simp add: cl [OF a b])
  have 2: "WatchSorterBinTriLong dbg a a = Inr False"
    using excl [of a] irrefl [of a] by (simp add: cl [OF a a])
  have 3: "WatchSorterBinTriLong dbg b a = Inr False"
    if "WatchSorterBinTriLong dbg a b = Inr True"
    using that excl [of a] excl [of b] asym [of a b] by (auto simp add: cl [OF a b] cl [OF b a])
  have 4: "WatchSorterBinTriLong dbg a c = Inr True"
    if "WatchSorterBinTriLong dbg a b = Inr True" and "WatchSorterBinTriLong dbg b c = Inr True"
    using that excl [of b] trans [of a b c]
    by (auto simp add: cl [OF a b] cl [OF b c] cl [OF a c])
  have 5: "WatchSorterBinTriLong dbg a c = Inr False \<and> WatchSorterBinTriLong dbg c a = Inr False"
    if ab: "WatchSorterBinTriLong dbg a b = Inr False" and ba: "WatchSorterBinTriLong dbg b a = Inr False"
      and bc: "WatchSorterBinTriLong dbg b c = Inr False" and cb: "WatchSorterBinTriLong dbg c b = Inr False"
  proof (cases "isBin b")
    case True
    then have nb: "\<not> isClause b" by (rule excl)
    from ab ba True nb a have ba': "isBin a" and "\<not> L a b" and "\<not> L b a"
      by (auto simp add: cl [OF a b] cl [OF b a])
    then have kab: "K a = K b" by (simp add: inc [symmetric])
    from bc cb True nb c have bc': "isBin c" and "\<not> L b c" and "\<not> L c b"
      by (auto simp add: cl [OF b c] cl [OF c b])
    then have "K b = K c" by (simp add: inc [symmetric])
    with kab have "K a = K c" by simp
    then have "\<not> L a c \<and> \<not> L c a" by (simp add: inc)
    with ba' bc' excl [of a] excl [of c] show ?thesis
      by (simp add: cl [OF a c] cl [OF c a])
  next
    case False
    with b have cb': "isClause b" by simp
    from ab cb' have "\<not> isBin a" by (simp add: cl [OF a b])
    moreover from cb cb' have "\<not> isBin c" by (simp add: cl [OF c b])
    ultimately show ?thesis by (simp add: cl [OF a c] cl [OF c a])
  qed
  from 1 2 3 4 5 show ?thesis by blast
qed

text \<open>
  Two binary records and two long-clause records: the binary ones are ordered among
  themselves and before the long-clause ones, which are unordered.
\<close>

theorem C6_strict_weak_order_witness:
  "(isBin (Watched_bin 30 (Lit 3) False 7) \<or> isClause (Watched_bin 30 (Lit 3) False 7))
 \<and> (isBin (Watched_bin 30 (Lit 3) True 2) \<or> isClause (Watched_bin 30 (Lit 3) True 2))
 \<and> (isBin (Watched_clause_lit 30 5 (Lit 1)) \<or> isClause (Watched_clause_lit 30 5 (Lit 1)))
 \<and> (isBin (Watched_clause_lit 30 9 (Lit 1)) \<or> isClause (Watched_clause_lit 30 9 (Lit 1)))
 \<and> WatchSorterBinTriLong True (Watched_bin 30 (Lit 3) False 7) (Watched_bin 30 (Lit 3) True 2) = Inr True
 \<and> WatchSorterBinTriLong True (Watched_bin 30 (Lit 3) True 2) (Watched_clause_lit 30 5 (Lit 1)) = Inr True
 \<and> WatchSorterBinTriLong True (Watched_bin 30 (Lit 3) False 7) (Watched_clause_lit 30 5 (Lit 1)) = Inr True
 \<and> WatchSorterBinTriLong True (Watched_bin 30 (Lit 3) True 2) (Watched_bin 30 (Lit 3) False 7) = Inr False
 \<and> WatchSorterBinTriLong True (Watched_bin 30 (Lit 3) False 7) (Watched_bin 30 (Lit 3) False 7) = Inr False
 \<and> WatchSorterBinTriLong True (Watched_clause_lit 30 5 (Lit 1)) (Watched_clause_lit 30 9 (Lit 1)) = Inr False
 \<and> WatchSorterBinTriLong True (Watched_clause_lit 30 9 (Lit 1)) (Watched_clause_lit 30 5 (Lit 1)) = Inr False
 \<and> WatchSorterBinTriLong True (Watched_clause_lit 30 5 (Lit 1)) (Watched_clause_lit 30 5 (Lit 1)) = Inr False"
proof -
  let ?c = "Watched_clause_lit 30 5 (Lit 1)"
  let ?d = "Watched_clause_lit 30 9 (Lit 1)"
  let ?p = "Watched_bin 30 (Lit 3) False 7"
  let ?q = "Watched_bin 30 (Lit 3) True 2"
  have c: "isBin ?c \<or> isClause ?c" and cc: "isClause ?c" "\<not> isIdx ?c"
    and d: "isBin ?d \<or> isClause ?d" and dd: "isClause ?d" "\<not> isIdx ?d"
    by (simp_all add: Watched_clause_lit_def tag_defs)
  have p: "isBin ?p \<or> isClause ?p" and q: "isBin ?q \<or> isClause ?q"
    and pp: "isBin ?p" and qq: "isBin ?q"
    by (simp_all add: Watched_bin_def tag_defs)
  have pq: "WatchSorterBinTriLong True ?p ?q = Inr True"
    using pp qq by (simp add: WatchSorter_bin_bin) (simp add: Watched_bin_def bitfield_def)
  have qc: "WatchSorterBinTriLong True ?q ?c = Inr True"
    using qq cc by (simp add: WatchSorter_bin_nonbin)
  have cd: "WatchSorterBinTriLong True ?c ?d = Inr False"
    and dc: "WatchSorterBinTriLong True ?d ?c = Inr False"
    using cc dd by (simp_all add: WatchSorter_left_nonbin)
  note w = C6_strict_weak_order [OF p q c, where dbg = True]
  note v = C6_strict_weak_order [OF c d c, where dbg = True]
  from w pq qc have "WatchSorterBinTriLong True ?p ?c = Inr True" by blast
  moreover from w pq have "WatchSorterBinTriLong True ?q ?p = Inr False" by blast
  moreover from w have "WatchSorterBinTriLong True ?p ?p = Inr False" by blast
  moreover from v cd dc have "WatchSorterBinTriLong True ?c ?c = Inr False" by blast
  ultimately show ?thesis using p q c d pq qc cd dc by blast
qed

section \<open>Records that are not binary are never ordered\<close>

text \<open>
  C10 (as amended). The canonical comparator returns false whenever its left operand is
  tagged clause or BNN and its right operand is not index-tagged. Hence any two records
  each tagged clause or BNN are unordered in both directions; in particular two
  long-clause records are never ordered by their offsets.
\<close>

theorem C10_nonbinary_equivalent:
  "((isClause a \<or> isBNN a) \<and> \<not> isIdx b \<longrightarrow> WatchSorterBinTriLong dbg a b = Inr False)
 \<and> ((isClause a \<or> isBNN a) \<and> (isClause b \<or> isBNN b) \<longrightarrow>
        WatchSorterBinTriLong dbg a b = Inr False \<and> WatchSorterBinTriLong dbg b a = Inr False)
 \<and> WatchSorterBinTriLong dbg (Watched_clause_lit bits o1 l1) (Watched_clause_lit bits o2 l2)
      = Inr False"
proof (intro conjI impI)
  assume "(isClause a \<or> isBNN a) \<and> \<not> isIdx b"
  then show "WatchSorterBinTriLong dbg a b = Inr False"
    by (simp add: WatchSorter_left_nonbin)
next
  assume h: "(isClause a \<or> isBNN a) \<and> (isClause b \<or> isBNN b)"
  then have "\<not> isIdx a" and "\<not> isIdx b"
    by (auto simp add: tag_defs)
  with h show "WatchSorterBinTriLong dbg a b = Inr False"
    and "WatchSorterBinTriLong dbg b a = Inr False"
    by (simp_all add: WatchSorter_left_nonbin)
next
  have "isClause (Watched_clause_lit bits o1 l1)" and "\<not> isIdx (Watched_clause_lit bits o2 l2)"
    by (simp_all add: Watched_clause_lit_def tag_defs)
  then show "WatchSorterBinTriLong dbg (Watched_clause_lit bits o1 l1)
      (Watched_clause_lit bits o2 l2) = Inr False"
    by (simp add: WatchSorter_left_nonbin)
qed

text \<open>
  Two long-clause records with offsets 5 and 9.
\<close>

theorem C10_nonbinary_equivalent_witness:
  "isClause (Watched_clause_lit 30 5 (Lit 1)) \<and> isClause (Watched_clause_lit 30 9 (Lit 1))
 \<and> \<not> isIdx (Watched_clause_lit 30 9 (Lit 1))
 \<and> WatchSorterBinTriLong True (Watched_clause_lit 30 5 (Lit 1)) (Watched_clause_lit 30 9 (Lit 1))
      = Inr False
 \<and> WatchSorterBinTriLong True (Watched_clause_lit 30 9 (Lit 1)) (Watched_clause_lit 30 5 (Lit 1))
      = Inr False"
proof -
  let ?a = "Watched_clause_lit 30 5 (Lit 1)"
  let ?b = "Watched_clause_lit 30 9 (Lit 1)"
  have h: "isClause ?a" "isClause ?b" "\<not> isIdx ?b"
    by (simp_all add: Watched_clause_lit_def tag_defs)
  with C10_nonbinary_equivalent [where a = ?a and b = ?b and dbg = True]
  show ?thesis by simp
qed

text \<open>
  The claim as first stated allows any right operand. An index-tagged right operand fails
  the assertion at the head of the comparator, so no value is returned.
\<close>

theorem C10_index_operand_counterexample:
  "Watched_idx 30 0 4 watch_idx_t = Inr \<lparr>data1 = 4, type = watch_idx_t, data2 = 0\<rparr>
 \<and> isClause (Watched_clause_lit 30 5 (Lit 1))
 \<and> WatchSorterBinTriLong False (Watched_clause_lit 30 5 (Lit 1))
      \<lparr>data1 = 4, type = watch_idx_t, data2 = 0\<rparr> = Inl AssertionFailed
 \<and> WatchSorterBinTriLong True (Watched_clause_lit 30 5 (Lit 1))
      \<lparr>data1 = 4, type = watch_idx_t, data2 = 0\<rparr> = Inl AssertionFailed"
  by (simp add: Watched_idx_def Watched_clause_lit_def WatchSorterBinTriLong_def res_defs
      tag_defs bitfield_def)

section \<open>The order of occurrence pairs\<close>

lemma OccurClause_less_bin_bin:
  "isBin (ws a) \<Longrightarrow> isBin (ws b) \<Longrightarrow>
   OccurClause_less dbg a b = Inr (data1 (ws a) < data1 (ws b))"
  by (simp add: OccurClause_less_def res_defs acc_defs toLit_def Lit_less_def)

lemma OccurClause_less_bin_nonbin:
  "isBin (ws a) \<Longrightarrow> \<not> isBin (ws b) \<Longrightarrow> OccurClause_less dbg a b = Inr True"
  by (simp add: OccurClause_less_def)

lemma OccurClause_less_nonbin_bin:
  "\<not> isBin (ws a) \<Longrightarrow> isBin (ws b) \<Longrightarrow> OccurClause_less dbg a b = Inr False"
  by (simp add: OccurClause_less_def)

lemma OccurClause_less_offsets:
  "\<not> isBin (ws a) \<Longrightarrow> \<not> isBin (ws b) \<Longrightarrow> \<not> isBNN (ws a) \<Longrightarrow> \<not> isBNN (ws b) \<Longrightarrow>
   dbg \<longrightarrow> isClause (ws a) \<and> isClause (ws b) \<Longrightarrow>
   OccurClause_less dbg a b = Inr (data2 (ws a) < data2 (ws b))"
  by (auto simp add: OccurClause_less_def res_defs acc_defs)

lemma OccurClause_less_bnn:
  "\<not> isBin (ws a) \<Longrightarrow> \<not> isBin (ws b) \<Longrightarrow> isBNN (ws a) \<or> isBNN (ws b) \<Longrightarrow>
   OccurClause_less dbg a b = Inl AssertionFailed"
  by (auto simp add: OccurClause_less_def res_defs acc_defs)

text \<open>
  C5 (as amended). In the occurrence-pair order, for either setting of the debug checks: a
  pair with a binary record sorts before any pair with a record that is not binary; two
  pairs with binary records compare by the other-literal inside the record, not by the
  pair's own literal; two pairs whose records are neither binary nor BNN-tagged compare by
  clause offset (with the debug checks on, \<open>get_offset\<close> also wants both to be long-clause
  records); a comparison of two records that are not binary fails the assertion as soon as
  one of them is BNN-tagged. In particular (lit A, binary watch with other-literal B) sorts
  before (lit A, long-clause watch) whatever B and the offset are.
\<close>

theorem C5_occurrence_order:
  "(isBin (ws a) \<and> \<not> isBin (ws b) \<longrightarrow> OccurClause_less dbg a b = Inr True)
 \<and> (isBin (ws a) \<and> isBin (ws b) \<longrightarrow>
      (\<exists>la lb. lit2 dbg (ws a) = Inr la \<and> lit2 dbg (ws b) = Inr lb
         \<and> OccurClause_less dbg a b = Inr (Lit_less la lb)))
 \<and> (\<not> isBin (ws a) \<and> \<not> isBin (ws b) \<and> \<not> isBNN (ws a) \<and> \<not> isBNN (ws b)
      \<and> (dbg \<longrightarrow> isClause (ws a) \<and> isClause (ws b)) \<longrightarrow>
      (\<exists>oa ob. get_offset dbg (ws a) = Inr oa \<and> get_offset dbg (ws b) = Inr ob
         \<and> OccurClause_less dbg a b = Inr (oa < ob)))
 \<and> (\<not> isBin (ws a) \<and> \<not> isBin (ws b) \<and> (isBNN (ws a) \<or> isBNN (ws b)) \<longrightarrow>
      OccurClause_less dbg a b = Inl AssertionFailed)
 \<and> OccurClause_less dbg \<lparr>lit = A, ws = Watched_bin bits B r ID\<rparr>
      \<lparr>lit = A, ws = Watched_clause_lit bits off l\<rparr> = Inr True"
proof (intro conjI impI)
  assume "isBin (ws a) \<and> \<not> isBin (ws b)"
  then show "OccurClause_less dbg a b = Inr True"
    by (simp add: OccurClause_less_bin_nonbin)
next
  assume "isBin (ws a) \<and> isBin (ws b)"
  then show "\<exists>la lb. lit2 dbg (ws a) = Inr la \<and> lit2 dbg (ws b) = Inr lb
         \<and> OccurClause_less dbg a b = Inr (Lit_less la lb)"
    by (simp add: OccurClause_less_bin_bin lit2_def res_defs toLit_def Lit_less_def)
next
  assume h: "\<not> isBin (ws a) \<and> \<not> isBin (ws b) \<and> \<not> isBNN (ws a) \<and> \<not> isBNN (ws b)
      \<and> (dbg \<longrightarrow> isClause (ws a) \<and> isClause (ws b))"
  then have "OccurClause_less dbg a b = Inr (data2 (ws a) < data2 (ws b))"
    by (simp add: OccurClause_less_offsets)
  moreover from h have "get_offset dbg (ws a) = Inr (data2 (ws a))"
    and "get_offset dbg (ws b) = Inr (data2 (ws b))"
    by (auto simp add: get_offset_def res_defs)
  ultimately show "\<exists>oa ob. get_offset dbg (ws a) = Inr oa \<and> get_offset dbg (ws b) = Inr ob
         \<and> OccurClause_less dbg a b = Inr (oa < ob)"
    by simp
next
  assume "\<not> isBin (ws a) \<and> \<not> isBin (ws b) \<and> (isBNN (ws a) \<or> isBNN (ws b))"
  then show "OccurClause_less dbg a b = Inl AssertionFailed"
    by (simp add: OccurClause_less_bnn)
next
  show "OccurClause_less dbg \<lparr>lit = A, ws = Watched_bin bits B r ID\<rparr>
      \<lparr>lit = A, ws = Watched_clause_lit bits off l\<rparr> = Inr True"
    by (simp add: OccurClause_less_bin_nonbin Watched_bin_def Watched_clause_lit_def tag_defs)
qed

text \<open>One instance for each case of C5, debug checks on.\<close>

theorem C5_occurrence_order_witness:
  "isBin (ws \<lparr>lit = Lit 8, ws = Watched_bin 30 (Lit 100) False 7\<rparr>)
 \<and> isBin (ws \<lparr>lit = Lit 8, ws = Watched_bin 30 (Lit 3) True 2\<rparr>)
 \<and> isClause (ws \<lparr>lit = Lit 8, ws = Watched_clause_lit 30 5 (Lit 1)\<rparr>)
 \<and> isClause (ws \<lparr>lit = Lit 8, ws = Watched_clause_lit 30 9 (Lit 1)\<rparr>)
 \<and> OccurClause_less True \<lparr>lit = Lit 8, ws = Watched_bin 30 (Lit 100) False 7\<rparr>
      \<lparr>lit = Lit 8, ws = Watched_clause_lit 30 5 (Lit 1)\<rparr> = Inr True
 \<and> OccurClause_less True \<lparr>lit = Lit 8, ws = Watched_bin 30 (Lit 3) True 2\<rparr>
      \<lparr>lit = Lit 8, ws = Watched_bin 30 (Lit 100) False 7\<rparr> = Inr True
 \<and> OccurClause_less True \<lparr>lit = Lit 8, ws = Watched_clause_lit 30 5 (Lit 1)\<rparr>
      \<lparr>lit = Lit 8, ws = Watched_clause_lit 30 9 (Lit 1)\<rparr> = Inr True
 \<and> isBNN (ws \<lparr>lit = Lit 8, ws = \<lparr>data1 = 0, type = watch_bnn_t, data2 = 1\<rparr>\<rparr>)
 \<and> OccurClause_less True \<lparr>lit = Lit 8, ws = Watched_clause_lit 30 5 (Lit 1)\<rparr>
      \<lparr>lit = Lit 8, ws = \<lparr>data1 = 0, type = watch_bnn_t, data2 = 1\<rparr>\<rparr> = Inl AssertionFailed"
proof -
  let ?p = "\<lparr>lit = Lit 8, ws = Watched_bin 30 (Lit 100) False 7\<rparr>"
  let ?q = "\<lparr>lit = Lit 8, ws = Watched_bin 30 (Lit 3) True 2\<rparr>"
  let ?c = "\<lparr>lit = Lit 8, ws = Watched_clause_lit 30 5 (Lit 1)\<rparr>"
  let ?d = "\<lparr>lit = Lit 8, ws = Watched_clause_lit 30 9 (Lit 1)\<rparr>"
  let ?n = "\<lparr>lit = Lit 8, ws = \<lparr>data1 = 0, type = watch_bnn_t, data2 = 1\<rparr>\<rparr>"
  have p: "isBin (ws ?p)" and q: "isBin (ws ?q)"
    by (simp_all add: Watched_bin_def tag_defs)
  have c: "isClause (ws ?c)" "\<not> isBin (ws ?c)" "\<not> isBNN (ws ?c)"
    and d: "isClause (ws ?d)" "\<not> isBin (ws ?d)" "\<not> isBNN (ws ?d)"
    by (simp_all add: Watched_clause_lit_def tag_defs)
  have n: "isBNN (ws ?n)" "\<not> isBin (ws ?n)"
    by (simp_all add: tag_defs)
  have lp: "lit2 True (ws ?p) = Inr (Lit 100)" and lq: "lit2 True (ws ?q) = Inr (Lit 3)"
    by (simp_all add: lit2_Watched_bin)
  have oc: "get_offset True (ws ?c) = Inr 5" and od: "get_offset True (ws ?d) = Inr 9"
    using c d
    by (simp_all add: get_offset_def res_defs) (simp_all add: Watched_clause_lit_def bitfield_def)
  have 1: "OccurClause_less True ?p ?c = Inr True"
    using C5_occurrence_order [where a = ?p and b = ?c and dbg = True] p c by simp
  have 2: "OccurClause_less True ?q ?p = Inr True"
    using C5_occurrence_order [where a = ?q and b = ?p and dbg = True] p q lp lq
    by (auto simp add: Lit_less_def)
  have 3: "OccurClause_less True ?c ?d = Inr True"
    using C5_occurrence_order [where a = ?c and b = ?d and dbg = True] c d oc od
    by auto
  have 4: "OccurClause_less True ?c ?n = Inl AssertionFailed"
    using C5_occurrence_order [where a = ?c and b = ?n and dbg = True] c n by simp
  from p q c d n 1 2 3 4 show ?thesis by simp
qed

text \<open>
  The claim as first stated has any two records that are not binary compare by offset.
  Two BNN records, whose second words are 0 and 1, fail the assertion instead.
\<close>

theorem C5_bnn_counterexample:
  "Watched_bnn False 30 0 watch_bnn_t bnn_pos_t = Inr \<lparr>data1 = 0, type = watch_bnn_t, data2 = 0\<rparr>
 \<and> Watched_bnn False 30 0 watch_bnn_t bnn_neg_t = Inr \<lparr>data1 = 0, type = watch_bnn_t, data2 = 1\<rparr>
 \<and> get_offset False \<lparr>data1 = 0, type = watch_bnn_t, data2 = 0\<rparr> = Inr 0
 \<and> get_offset False \<lparr>data1 = 0, type = watch_bnn_t, data2 = 1\<rparr> = Inr 1
 \<and> OccurClause_less False
      \<lparr>lit = Lit 8, ws = \<lparr>data1 = 0, type = watch_bnn_t, data2 = 0\<rparr>\<rparr>
      \<lparr>lit = Lit 8, ws = \<lparr>data1 = 0, type = watch_bnn_t, data2 = 1\<rparr>\<rparr> = Inl AssertionFailed
 \<and> OccurClause_less True
      \<lparr>lit = Lit 8, ws = \<lparr>data1 = 0, type = watch_bnn_t, data2 = 0\<rparr>\<rparr>
      \<lparr>lit = Lit 8, ws = \<lparr>data1 = 0, type = watch_bnn_t, data2 = 1\<rparr>\<rparr> = Inl AssertionFailed"
  by (simp add: Watched_bnn_def OccurClause_less_def get_offset_def res_defs tag_defs bitfield_def)

lemma OccurClause_less_total:
  assumes "\<not> isBNN (ws a)" and "\<not> isBNN (ws b)"
    and "dbg \<longrightarrow> \<not> isIdx (ws a) \<and> \<not> isIdx (ws b)"
  shows "OccurClause_less dbg a b =
     Inr (if isBin (ws a) then (isBin (ws b) \<longrightarrow> data1 (ws a) < data1 (ws b))
          else \<not> isBin (ws b) \<and> data2 (ws a) < data2 (ws b))"
proof (cases "isBin (ws a)")
  case a: True
  show ?thesis
  proof (cases "isBin (ws b)")
    case True
    with a show ?thesis by (simp add: OccurClause_less_bin_bin)
  next
    case False
    with a show ?thesis by (simp add: OccurClause_less_bin_nonbin)
  qed
next
  case a: False
  show ?thesis
  proof (cases "isBin (ws b)")
    case True
    with a show ?thesis by (simp add: OccurClause_less_nonbin_bin)
  next
    case False
    have "isClause x" if "\<not> isBin x" "\<not> isBNN x" "\<not> isIdx x" for x
      using that by (cases "type x") (simp_all add: tag_defs)
    with a False assms have "dbg \<longrightarrow> isClause (ws a) \<and> isClause (ws b)"
      by blast
    with a False assms show ?thesis by (simp add: OccurClause_less_offsets)
  qed
qed

text \<open>
  C7 (as amended). On pairs whose records are not BNN-tagged (and, with the debug checks
  on, not index-tagged) the occurrence-pair order always returns a value, and that value
  is a strict weak order, not a total order. The result is fixed by the sort key alone: a
  binary record before any other, two binary records by other-literal (the first word),
  two others by offset (the second word). No pair is less than itself; \<open>a < b\<close> and
  \<open>b < a\<close> never both hold; the order is transitive, and being unordered either way is
  transitive. One of \<open>a < b\<close>, \<open>b < a\<close> holds exactly when the pairs differ in their sort
  key: one record binary and the other not, both binary with different other-literals, or
  neither binary with different offsets. Structurally equal pairs are unordered, and so are
  unequal pairs with the same sort key.
\<close>

theorem C7_occurrence_strict_weak:
  assumes "\<not> isBNN (ws a)" and "\<not> isBNN (ws b)" and "\<not> isBNN (ws c)"
    and "dbg \<longrightarrow> \<not> isIdx (ws a) \<and> \<not> isIdx (ws b) \<and> \<not> isIdx (ws c)"
  shows "(\<exists>r. OccurClause_less dbg a b = Inr r)
       \<and> OccurClause_less dbg a b =
           Inr (if isBin (ws a)
                then (if isBin (ws b) then data1 (ws a) < data1 (ws b) else True)
                else (if isBin (ws b) then False else data2 (ws a) < data2 (ws b)))
       \<and> OccurClause_less dbg a a = Inr False
       \<and> \<not> (OccurClause_less dbg a b = Inr True \<and> OccurClause_less dbg b a = Inr True)
       \<and> (OccurClause_less dbg a b = Inr True \<and> OccurClause_less dbg b c = Inr True
            \<longrightarrow> OccurClause_less dbg a c = Inr True)
       \<and> (OccurClause_less dbg a b = Inr False \<and> OccurClause_less dbg b a = Inr False
          \<and> OccurClause_less dbg b c = Inr False \<and> OccurClause_less dbg c b = Inr False
            \<longrightarrow> OccurClause_less dbg a c = Inr False \<and> OccurClause_less dbg c a = Inr False)
       \<and> ((OccurClause_less dbg a b = Inr True \<or> OccurClause_less dbg b a = Inr True) =
           (isBin (ws a) \<noteq> isBin (ws b)
          \<or> isBin (ws a) \<and> isBin (ws b) \<and> data1 (ws a) \<noteq> data1 (ws b)
          \<or> \<not> isBin (ws a) \<and> \<not> isBin (ws b) \<and> data2 (ws a) \<noteq> data2 (ws b)))
       \<and> (OccurClause_eq a b \<longrightarrow>
            OccurClause_less dbg a b = Inr False \<and> OccurClause_less dbg b a = Inr False)"
proof -
  define L where "L x y =
     (if isBin (ws x) then (isBin (ws y) \<longrightarrow> data1 (ws x) < data1 (ws y))
      else \<not> isBin (ws y) \<and> data2 (ws x) < data2 (ws y))" for x y :: OccurClause
  have ia: "dbg \<longrightarrow> \<not> isIdx (ws a) \<and> \<not> isIdx (ws a)"
    and ib: "dbg \<longrightarrow> \<not> isIdx (ws b) \<and> \<not> isIdx (ws a)"
    and iab: "dbg \<longrightarrow> \<not> isIdx (ws a) \<and> \<not> isIdx (ws b)"
    and ibc: "dbg \<longrightarrow> \<not> isIdx (ws b) \<and> \<not> isIdx (ws c)"
    and icb: "dbg \<longrightarrow> \<not> isIdx (ws c) \<and> \<not> isIdx (ws b)"
    and iac: "dbg \<longrightarrow> \<not> isIdx (ws a) \<and> \<not> isIdx (ws c)"
    and ica: "dbg \<longrightarrow> \<not> isIdx (ws c) \<and> \<not> isIdx (ws a)"
    using assms(4) by simp_all
  have aa: "OccurClause_less dbg a a = Inr (L a a)"
    unfolding L_def by (rule OccurClause_less_total [OF assms(1) assms(1) ia])
  have ab: "OccurClause_less dbg a b = Inr (L a b)"
    unfolding L_def by (rule OccurClause_less_total [OF assms(1) assms(2) iab])
  have ba: "OccurClause_less dbg b a = Inr (L b a)"
    unfolding L_def by (rule OccurClause_less_total [OF assms(2) assms(1) ib])
  have bc: "OccurClause_less dbg b c = Inr (L b c)"
    unfolding L_def by (rule OccurClause_less_total [OF assms(2) assms(3) ibc])
  have cb: "OccurClause_less dbg c b = Inr (L c b)"
    unfolding L_def by (rule OccurClause_less_total [OF assms(3) assms(2) icb])
  have ac: "OccurClause_less dbg a c = Inr (L a c)"
    unfolding L_def by (rule OccurClause_less_total [OF assms(1) assms(3) iac])
  have ca: "OccurClause_less dbg c a = Inr (L c a)"
    unfolding L_def by (rule OccurClause_less_total [OF assms(3) assms(1) ica])
  have irrefl: "\<not> L x x" for x
    by (simp add: L_def)
  have asym: "L x y \<Longrightarrow> \<not> L y x" for x y
    by (auto simp add: L_def split: if_splits)
  have trans: "L x y \<Longrightarrow> L y z \<Longrightarrow> L x z" for x y z
    by (auto simp add: L_def split: if_splits)
  have inc: "(\<not> L x y \<and> \<not> L y x) =
      (isBin (ws x) = isBin (ws y)
       \<and> (if isBin (ws x) then data1 (ws x) = data1 (ws y) else data2 (ws x) = data2 (ws y)))"
    for x y
    by (auto simp add: L_def split: if_splits)
  have 1: "\<exists>r. OccurClause_less dbg a b = Inr r"
    by (simp add: ab)
  have 2: "OccurClause_less dbg a b =
           Inr (if isBin (ws a)
                then (if isBin (ws b) then data1 (ws a) < data1 (ws b) else True)
                else (if isBin (ws b) then False else data2 (ws a) < data2 (ws b)))"
    by (simp add: ab L_def)
  have 3: "OccurClause_less dbg a a = Inr False"
    by (simp add: aa irrefl)
  have 4: "\<not> (OccurClause_less dbg a b = Inr True \<and> OccurClause_less dbg b a = Inr True)"
    using asym [of a b] by (simp add: ab ba)
  have 5: "OccurClause_less dbg a c = Inr True"
    if "OccurClause_less dbg a b = Inr True" and "OccurClause_less dbg b c = Inr True"
    using that trans [of a b c] by (simp add: ab bc ac)
  have 6: "OccurClause_less dbg a c = Inr False \<and> OccurClause_less dbg c a = Inr False"
    if "OccurClause_less dbg a b = Inr False" and "OccurClause_less dbg b a = Inr False"
      and "OccurClause_less dbg b c = Inr False" and "OccurClause_less dbg c b = Inr False"
  proof -
    from that have "\<not> L a b \<and> \<not> L b a" and "\<not> L b c \<and> \<not> L c b"
      by (simp_all add: ab ba bc cb)
    then have "\<not> L a c \<and> \<not> L c a"
      unfolding inc by (auto split: if_splits)
    then show ?thesis
      by (simp add: ac ca)
  qed
  have 7: "(OccurClause_less dbg a b = Inr True \<or> OccurClause_less dbg b a = Inr True) =
           (isBin (ws a) \<noteq> isBin (ws b)
          \<or> isBin (ws a) \<and> isBin (ws b) \<and> data1 (ws a) \<noteq> data1 (ws b)
          \<or> \<not> isBin (ws a) \<and> \<not> isBin (ws b) \<and> data2 (ws a) \<noteq> data2 (ws b))"
    using inc [of a b] by (simp add: ab ba) (auto split: if_splits)
  have 8: "OccurClause_less dbg a b = Inr False \<and> OccurClause_less dbg b a = Inr False"
    if "OccurClause_eq a b"
  proof -
    from that have "data1 (ws a) = data1 (ws b)" "data2 (ws a) = data2 (ws b)"
      "isBin (ws a) = isBin (ws b)"
      by (simp_all add: OccurClause_eq_def Watched_eq_def tag_defs)
    then have "\<not> L a b \<and> \<not> L b a"
      by (simp add: inc)
    then show ?thesis
      by (simp add: ab ba)
  qed
  from 1 2 3 4 5 6 7 8 show ?thesis
    by blast
qed

text \<open>
  Two binary pairs and a long-clause pair in their order, debug checks on; three binary
  pairs that differ only in their own literal, all unordered; a pair against itself.
\<close>

theorem C7_occurrence_strict_weak_witness:
  "\<not> isBNN (ws \<lparr>lit = Lit 8, ws = Watched_bin 30 (Lit 3) True 2\<rparr>)
 \<and> \<not> isBNN (ws \<lparr>lit = Lit 8, ws = Watched_bin 30 (Lit 100) False 7\<rparr>)
 \<and> \<not> isBNN (ws \<lparr>lit = Lit 8, ws = Watched_clause_lit 30 5 (Lit 1)\<rparr>)
 \<and> \<not> isIdx (ws \<lparr>lit = Lit 8, ws = Watched_bin 30 (Lit 3) True 2\<rparr>)
 \<and> \<not> isIdx (ws \<lparr>lit = Lit 8, ws = Watched_bin 30 (Lit 100) False 7\<rparr>)
 \<and> \<not> isIdx (ws \<lparr>lit = Lit 8, ws = Watched_clause_lit 30 5 (Lit 1)\<rparr>)
 \<and> OccurClause_less True \<lparr>lit = Lit 8, ws = Watched_bin 30 (Lit 3) True 2\<rparr>
        \<lparr>lit = Lit 8, ws = Watched_bin 30 (Lit 100) False 7\<rparr> = Inr True
 \<and> OccurClause_less True \<lparr>lit = Lit 8, ws = Watched_bin 30 (Lit 100) False 7\<rparr>
        \<lparr>lit = Lit 8, ws = Watched_clause_lit 30 5 (Lit 1)\<rparr> = Inr True
 \<and> OccurClause_less True \<lparr>lit = Lit 8, ws = Watched_bin 30 (Lit 3) True 2\<rparr>
        \<lparr>lit = Lit 8, ws = Watched_clause_lit 30 5 (Lit 1)\<rparr> = Inr True
 \<and> OccurClause_less True \<lparr>lit = Lit 8, ws = Watched_bin 30 (Lit 100) False 7\<rparr>
        \<lparr>lit = Lit 8, ws = Watched_bin 30 (Lit 3) True 2\<rparr> = Inr False
 \<and> OccurClause_less True \<lparr>lit = Lit 8, ws = Watched_bin 30 (Lit 3) True 2\<rparr>
        \<lparr>lit = Lit 8, ws = Watched_bin 30 (Lit 3) True 2\<rparr> = Inr False
 \<and> OccurClause_less False \<lparr>lit = Lit 0, ws = Watched_bin 30 (Lit 5) False 1\<rparr>
        \<lparr>lit = Lit 1, ws = Watched_bin 30 (Lit 5) False 1\<rparr> = Inr False
 \<and> OccurClause_less False \<lparr>lit = Lit 1, ws = Watched_bin 30 (Lit 5) False 1\<rparr>
        \<lparr>lit = Lit 2, ws = Watched_bin 30 (Lit 5) False 1\<rparr> = Inr False
 \<and> OccurClause_less False \<lparr>lit = Lit 0, ws = Watched_bin 30 (Lit 5) False 1\<rparr>
        \<lparr>lit = Lit 2, ws = Watched_bin 30 (Lit 5) False 1\<rparr> = Inr False
 \<and> OccurClause_less False \<lparr>lit = Lit 2, ws = Watched_bin 30 (Lit 5) False 1\<rparr>
        \<lparr>lit = Lit 0, ws = Watched_bin 30 (Lit 5) False 1\<rparr> = Inr False
 \<and> OccurClause_eq \<lparr>lit = Lit 8, ws = Watched_clause_lit 30 5 (Lit 1)\<rparr>
        \<lparr>lit = Lit 8, ws = Watched_clause_lit 30 5 (Lit 1)\<rparr>
 \<and> OccurClause_less True \<lparr>lit = Lit 8, ws = Watched_clause_lit 30 5 (Lit 1)\<rparr>
        \<lparr>lit = Lit 8, ws = Watched_clause_lit 30 5 (Lit 1)\<rparr> = Inr False"
proof -
  let ?q = "\<lparr>lit = Lit 8, ws = Watched_bin 30 (Lit 3) True 2\<rparr>"
  let ?p = "\<lparr>lit = Lit 8, ws = Watched_bin 30 (Lit 100) False 7\<rparr>"
  let ?c = "\<lparr>lit = Lit 8, ws = Watched_clause_lit 30 5 (Lit 1)\<rparr>"
  let ?x = "\<lparr>lit = Lit 0, ws = Watched_bin 30 (Lit 5) False 1\<rparr>"
  let ?y = "\<lparr>lit = Lit 1, ws = Watched_bin 30 (Lit 5) False 1\<rparr>"
  let ?z = "\<lparr>lit = Lit 2, ws = Watched_bin 30 (Lit 5) False 1\<rparr>"
  have q: "\<not> isBNN (ws ?q)" "\<not> isIdx (ws ?q)" "isBin (ws ?q)"
    and p: "\<not> isBNN (ws ?p)" "\<not> isIdx (ws ?p)" "isBin (ws ?p)"
    and x: "\<not> isBNN (ws ?x)" "isBin (ws ?x)"
    and y: "\<not> isBNN (ws ?y)" "isBin (ws ?y)"
    and z: "\<not> isBNN (ws ?z)" "isBin (ws ?z)"
    by (simp_all add: Watched_bin_def tag_defs)
  have c: "\<not> isBNN (ws ?c)" "\<not> isIdx (ws ?c)" "\<not> isBin (ws ?c)"
    by (simp_all add: Watched_clause_lit_def tag_defs)
  have dq: "data1 (ws ?q) = 3" and dp: "data1 (ws ?p) = 100"
    and dx: "data1 (ws ?x) = 5" "data1 (ws ?y) = 5" "data1 (ws ?z) = 5"
    by (simp_all add: Watched_bin_def)
  have i1: "True \<longrightarrow> \<not> isIdx (ws ?q) \<and> \<not> isIdx (ws ?p) \<and> \<not> isIdx (ws ?c)"
    using q p c by simp
  have i2: "False \<longrightarrow> \<not> isIdx (ws ?x) \<and> \<not> isIdx (ws ?y) \<and> \<not> isIdx (ws ?z)"
    by simp
  have i3: "True \<longrightarrow> \<not> isIdx (ws ?c) \<and> \<not> isIdx (ws ?c) \<and> \<not> isIdx (ws ?c)"
    using c by simp
  have i4: "True \<longrightarrow> \<not> isIdx (ws ?p) \<and> \<not> isIdx (ws ?q) \<and> \<not> isIdx (ws ?c)"
    using q p c by simp
  have i5: "True \<longrightarrow> \<not> isIdx (ws ?p) \<and> \<not> isIdx (ws ?c) \<and> \<not> isIdx (ws ?c)"
    using p c by simp
  have e: "OccurClause_eq ?c ?c"
    by (simp add: OccurClause_eq_def Watched_eq_def)
  note t1 = C7_occurrence_strict_weak [OF q(1) p(1) c(1) i1]
  note t2 = C7_occurrence_strict_weak [OF x(1) y(1) z(1) i2]
  note t3 = C7_occurrence_strict_weak [OF c(1) c(1) c(1) i3]
  note t4 = C7_occurrence_strict_weak [OF p(1) q(1) c(1) i4]
  have qp: "OccurClause_less True ?q ?p = Inr True"
    using t1 q p dq dp by simp
  have pc: "OccurClause_less True ?p ?c = Inr True"
    using C7_occurrence_strict_weak [OF p(1) c(1) c(1) i5] p c by simp
  have qc: "OccurClause_less True ?q ?c = Inr True"
    using t1 qp pc by blast
  have pq: "OccurClause_less True ?p ?q = Inr False"
    using t4 q p dq dp by simp
  have qq: "OccurClause_less True ?q ?q = Inr False"
    using t1 by blast
  have xy: "OccurClause_less False ?x ?y = Inr False"
    and yx: "OccurClause_less False ?y ?x = Inr False"
    using C7_occurrence_strict_weak [OF x(1) y(1) z(1) i2]
      C7_occurrence_strict_weak [OF y(1) x(1) z(1), of False] x y dx by simp_all
  have yz: "OccurClause_less False ?y ?z = Inr False"
    and zy: "OccurClause_less False ?z ?y = Inr False"
    using C7_occurrence_strict_weak [OF y(1) z(1) x(1), of False]
      C7_occurrence_strict_weak [OF z(1) y(1) x(1), of False] y z dx by simp_all
  have xz: "OccurClause_less False ?x ?z = Inr False \<and> OccurClause_less False ?z ?x = Inr False"
    using t2 xy yx yz zy by blast
  have cc: "OccurClause_less True ?c ?c = Inr False"
    using t3 e by blast
  from q p c qp pc qc pq qq xy yz xz e cc show ?thesis
    by simp
qed

text \<open>
  The claim as first stated orders any two pairs that are not structurally equal. Two
  pairs that differ only in their own literal are unequal and unordered.
\<close>

theorem C7_total_order_counterexample:
  "\<not> OccurClause_eq \<lparr>lit = Lit 0, ws = Watched_bin 30 (Lit 5) False 1\<rparr>
        \<lparr>lit = Lit 1, ws = Watched_bin 30 (Lit 5) False 1\<rparr>
 \<and> \<not> isBNN (Watched_bin 30 (Lit 5) False 1)
 \<and> OccurClause_less False \<lparr>lit = Lit 0, ws = Watched_bin 30 (Lit 5) False 1\<rparr>
        \<lparr>lit = Lit 1, ws = Watched_bin 30 (Lit 5) False 1\<rparr> = Inr False
 \<and> OccurClause_less False \<lparr>lit = Lit 1, ws = Watched_bin 30 (Lit 5) False 1\<rparr>
        \<lparr>lit = Lit 0, ws = Watched_bin 30 (Lit 5) False 1\<rparr> = Inr False"
  by (simp add: OccurClause_eq_def OccurClause_less_bin_bin Watched_bin_def tag_defs)

section \<open>The default record\<close>

lemma unat_mask64: "n \<le> 64 \<Longrightarrow> unat (mask n :: 64 word) = 2 ^ n - 1"
proof -
  assume n: "n \<le> 64"
  have "uint (mask n :: 64 word) = mask n"
    using n by (simp add: uint_mask_eq min_def)
  then have "unat (mask n :: 64 word) = nat (mask n)"
    by (simp add: unat_eq_nat_uint)
  also have "\<dots> = 2 ^ n - 1"
    by (simp add: mask_eq_exp_minus_1 nat_diff_distrib nat_power_eq)
  finally show ?thesis .
qed

lemma data2_Watched_default: "data2 (Watched_default bits) = mask (min bits 30)"
proof -
  have "(ucast (drop_bit 2 (- 1 :: uint32_t)) :: uint64_t) = mask 30"
    by (simp add: mask_eq_exp_minus_1)
  then have "data2 (Watched_default bits) = take_bit bits (mask 30)"
    by (simp add: Watched_default_def bitfield_def)
  also have "\<dots> = mask (min bits 30)"
    by simp
  finally show ?thesis .
qed

text \<open>
  C8 (as amended). A default-constructed record is tagged long-clause, its first word is the
  largest 32-bit value, and its second word is the low \<open>bits\<close> bits of \<open>2 ^ 30 - 1\<close>: the
  largest value of the bit budget when the budget is at most 30 bits, and \<open>2 ^ 30 - 1\<close>
  for every wider budget.
\<close>

theorem C8_default_record:
  "getType (Watched_default bits) = watch_clause_t
 \<and> data1 (Watched_default bits) = - 1
 \<and> unat (data1 (Watched_default bits)) = 2 ^ 32 - 1
 \<and> data2 (Watched_default bits) = take_bit bits (2 ^ 30 - 1)
 \<and> (bits \<le> 30 \<longrightarrow> data2 (Watched_default bits) = 2 ^ bits - 1
      \<and> unat (data2 (Watched_default bits)) = 2 ^ bits - 1)
 \<and> (30 \<le> bits \<longrightarrow> data2 (Watched_default bits) = 2 ^ 30 - 1)"
proof (intro conjI impI)
  show "getType (Watched_default bits) = watch_clause_t"
    by (simp add: Watched_default_def getType_def)
  show "data1 (Watched_default bits) = - 1"
    by (simp add: Watched_default_def)
  show "unat (data1 (Watched_default bits)) = 2 ^ 32 - 1"
    by (simp add: Watched_default_def unsigned_minus_1_eq_mask mask_eq_exp_minus_1)
  note m = data2_Watched_default [of bits]
  have "(2 ^ 30 - 1 :: uint64_t) = mask 30"
    by (simp add: mask_eq_exp_minus_1)
  then show "data2 (Watched_default bits) = take_bit bits (2 ^ 30 - 1)"
    unfolding m by (simp only: take_bit_of_mask)
  { assume "bits \<le> 30"
    then show "data2 (Watched_default bits) = 2 ^ bits - 1"
      by (simp add: m min_def mask_eq_exp_minus_1)
    from \<open>bits \<le> 30\<close> show "unat (data2 (Watched_default bits)) = 2 ^ bits - 1"
      by (simp add: m min_def unat_mask64) }
  { assume "30 \<le> bits"
    then show "data2 (Watched_default bits) = 2 ^ 30 - 1"
      by (simp add: m min_def mask_eq_exp_minus_1) }
qed

text \<open>
  The default record at a 30-bit budget.
\<close>

theorem C8_default_record_witness:
  "(30::nat) \<le> 30
 \<and> getType (Watched_default 30) = watch_clause_t
 \<and> unat (data1 (Watched_default 30)) = 2 ^ 32 - 1
 \<and> data2 (Watched_default 30) = 2 ^ 30 - 1
 \<and> unat (data2 (Watched_default 30)) = 2 ^ 30 - 1"
  using C8_default_record [of 30]
  by (simp add: unsigned_minus_1_eq_mask mask_eq_exp_minus_1)

text \<open>
  The claim as first stated has the second word at the maximum of whatever budget the
  native width gives. At a 62-bit budget it is \<open>2 ^ 30 - 1\<close>.
\<close>

theorem C8_wide_budget_counterexample:
  "data2 (Watched_default 62) = 2 ^ 30 - 1 \<and> data2 (Watched_default 62) \<noteq> 2 ^ 62 - 1"
  by (simp add: data2_Watched_default mask_eq_exp_minus_1)

section \<open>The identifier at the edge of its bit budget\<close>

lemma Watched_bin_overflow:
  "Watched_bin bits l r (2 ^ (bits - 2)) = Watched_bin bits l r 0"
proof -
  have "take_bit bits (of_bool r OR push_bit 2 (2 ^ (bits - 2) :: uint64_t))
      = take_bit bits (of_bool r OR push_bit 2 (0 :: uint64_t))"
    by (rule bit_eqI) (auto simp add: bit_simps)
  then show ?thesis
    by (simp add: Watched_bin_def bitfield_def)
qed

text \<open>
  C4 (as amended). A binary record built with the largest identifier of the budget
  (\<open>2 ^ (bits - 2) - 1\<close>) reads back that identifier, its literal and its flag. The
  constructor has no check: built with an identifier one beyond, it returns the very
  record it returns for identifier 0, and \<open>get_ID\<close> reads 0.
\<close>

theorem C4_identifier_boundary:
  assumes "2 \<le> bits" and "bits \<le> 64"
  shows "lit2 dbg (Watched_bin bits l r (2 ^ (bits - 2) - 1)) = Inr l
       \<and> red dbg (Watched_bin bits l r (2 ^ (bits - 2) - 1)) = Inr r
       \<and> get_ID dbg (Watched_bin bits l r (2 ^ (bits - 2) - 1)) = Inr (2 ^ (bits - 2) - 1)
       \<and> Watched_bin bits l r (2 ^ (bits - 2)) = Watched_bin bits l r 0
       \<and> get_ID dbg (Watched_bin bits l r (2 ^ (bits - 2))) = Inr 0"
proof (intro conjI)
  show "lit2 dbg (Watched_bin bits l r (2 ^ (bits - 2) - 1)) = Inr l"
    by (rule lit2_Watched_bin)
  show "red dbg (Watched_bin bits l r (2 ^ (bits - 2) - 1)) = Inr r"
    using assms by (simp add: red_Watched_bin)
  show "get_ID dbg (Watched_bin bits l r (2 ^ (bits - 2) - 1)) = Inr (2 ^ (bits - 2) - 1)"
    using assms by (simp add: get_ID_Watched_bin flip: mask_eq_exp_minus_1)
  show "Watched_bin bits l r (2 ^ (bits - 2)) = Watched_bin bits l r 0"
    by (rule Watched_bin_overflow)
  show "get_ID dbg (Watched_bin bits l r (2 ^ (bits - 2))) = Inr 0"
    using assms by (simp add: Watched_bin_overflow get_ID_Watched_bin)
qed

text \<open>
  The 30-bit budget: identifiers \<open>2 ^ 28 - 1\<close> and \<open>2 ^ 28\<close>.
\<close>

theorem C4_identifier_boundary_witness:
  "(2::nat) \<le> 30 \<and> (30::nat) \<le> 64
 \<and> get_ID True (Watched_bin 30 (Lit 3) True 268435455) = Inr 268435455
 \<and> get_ID True (Watched_bin 30 (Lit 3) True 268435456) = Inr 0"
  using C4_identifier_boundary [of 30 True "Lit 3" True] by (simp add: get_ID_Watched_bin)

text \<open>
  The claim as first stated has the identifier one beyond the maximum rejected or flagged
  at construction. The constructor accepts it and the identifier is lost.
\<close>

theorem C4_no_check_counterexample:
  "Watched_bin 30 (Lit 3) True (2 ^ 28) = Watched_bin 30 (Lit 3) True 0
 \<and> get_ID False (Watched_bin 30 (Lit 3) True (2 ^ 28)) = Inr 0
 \<and> get_ID True (Watched_bin 30 (Lit 3) True (2 ^ 28)) = Inr 0
 \<and> (2 ^ 28 :: uint64_t) \<noteq> 0"
  by (simp add: Watched_bin_def get_ID_def res_defs tag_defs bitfield_def)

section \<open>Clearing the redundant flag\<close>

lemma setRed_Inr:
  "setRed dbg bits toSet w = Inr w' \<Longrightarrow>
   \<not> toSet \<and> w' = w\<lparr>data2 := bitfield bits (data2 w AND ucast (NOT (1 :: uint32_t)))\<rparr>"
  by (auto simp add: setRed_def res_defs split: if_splits sum.splits)

lemma setRed_no_debug:
  "setRed False bits False w = Inr (w\<lparr>data2 := bitfield bits (data2 w AND ucast (NOT (1 :: uint32_t)))\<rparr>)"
  by (simp add: setRed_def res_defs)

lemma setRed_debug_irreducible:
  "data2 w AND 1 = 0 \<Longrightarrow> setRed True bits False w = Inl AssertionFailed"
  by (simp add: setRed_def red_def res_defs)

lemma bit_clear_mask32: "bit (4294967294 :: uint64_t) n \<longleftrightarrow> 0 < n \<and> n < 32"
proof -
  have "(4294967294 :: uint64_t) = push_bit 1 (mask 31)"
    by (simp add: mask_eq_exp_minus_1)
  then show ?thesis
    by (simp only: bit_simps) (auto simp add: less_Suc_eq_0_disj)
qed

lemma bit_minus_2: "bit (- 2 :: uint64_t) n \<longleftrightarrow> 0 < n \<and> n < 64"
proof -
  have "(- 2 :: uint64_t) = NOT 1" by simp
  then show ?thesis
    by (simp only: bit_simps) auto
qed

lemma bit_two: "bit (2 :: uint64_t) n \<longleftrightarrow> n = 1"
proof -
  have "(2 :: uint64_t) = push_bit 1 1" by simp
  then show ?thesis
    by (simp only: bit_simps) auto
qed

lemma ucast_not1: "(ucast (NOT (1 :: uint32_t)) :: uint64_t) = 4294967294"
  by simp


lemma clear_flag_narrow:
  fixes d :: uint64_t
  assumes "bits \<le> 32" and "take_bit bits d = d"
  shows "bitfield bits (d AND 4294967294) = d AND - 2"
proof -
  have lim: "n < bits" if "bit d n" for n
    using that assms(2) by (metis bit_take_bit_iff)
  show ?thesis
    unfolding bitfield_def
  proof (rule bit_eqI)
    fix n
    show "bit (take_bit bits (d AND 4294967294)) n = bit (d AND - 2) n"
      using assms(1) lim [of n]
      by (auto simp add: bit_take_bit_iff bit_and_iff bit_clear_mask32 bit_minus_2
          simp del: bit_numeral_word_iff bit_neg_numeral_word_iff)
  qed
qed

lemma clear_flag_twice:
  fixes d :: uint64_t
  shows "bitfield bits (bitfield bits (d AND 4294967294) AND 4294967294)
       = bitfield bits (d AND 4294967294)"
  unfolding bitfield_def
  by (rule bit_eqI) (auto simp add: bit_take_bit_iff bit_and_iff)

lemma and_minus_2_marked: "((d :: uint64_t) AND - 2) AND 2 = d AND 2"
  by (rule bit_eqI)
    (auto simp add: bit_and_iff bit_minus_2 bit_two
      simp del: bit_numeral_word_iff bit_neg_numeral_word_iff)

lemma and_minus_2_ID: "drop_bit 2 ((d :: uint64_t) AND - 2) = drop_bit 2 d"
proof (rule bit_eqI)
  fix n
  have "bit (d AND - 2) (2 + n) = bit d (2 + n)"
    by (auto simp add: bit_and_iff bit_minus_2 simp del: bit_neg_numeral_word_iff
        dest: bit_imp_le_length)
  then show "bit (drop_bit 2 (d AND - 2)) n = bit (drop_bit 2 d) n"
    by (simp only: bit_drop_bit_eq comp_apply)
qed

lemma and_minus_2_red: "((d :: uint64_t) AND - 2) AND 1 = 0"
  by (rule bit_eqI)
    (auto simp add: bit_and_iff bit_minus_2 bit_1_iff simp del: bit_neg_numeral_word_iff)

lemma and_minus_2_irreducible:
  assumes "(d :: uint64_t) AND 1 = 0"
  shows "d AND - 2 = d"
proof (rule bit_eqI)
  fix n
  have "\<not> bit d 0"
    using assms by (simp add: and_one_eq bit_0 flip: even_iff_mod_2_eq_zero)
  then show "bit (d AND - 2) n = bit d n"
    by (cases n)
      (auto simp add: bit_and_iff bit_minus_2 simp del: bit_neg_numeral_word_iff
        dest: bit_imp_le_length)
qed

lemma setRed_frame_narrow:
  assumes "bits \<le> 32" and "take_bit bits (data2 w) = data2 w"
    and "setRed dbg bits False w = Inr w'"
  shows "bin_cl_marked d w' = bin_cl_marked d w"
    and "get_ID d w' = get_ID d w"
    and "lit2 d w' = lit2 d w"
    and "getType w' = getType w"
    and "red False w' = Inr False"
proof -
  from setRed_Inr [OF assms(3)] clear_flag_narrow [OF assms(1,2)]
  have w': "w' = w\<lparr>data2 := data2 w AND - 2\<rparr>" by simp
  show "bin_cl_marked d w' = bin_cl_marked d w"
    by (simp add: w' bin_cl_marked_def tag_defs and_minus_2_marked)
  have t: "type w' = type w" and d2: "data2 w' = data2 w AND - 2"
    by (simp_all add: w')
  show "get_ID d w' = get_ID d w"
    unfolding get_ID_def tag_defs t d2 and_minus_2_ID by (rule refl)
  show "lit2 d w' = lit2 d w"
    by (simp add: w' lit2_def tag_defs)
  show "getType w' = getType w"
    by (simp add: w' tag_defs)
  show "red False w' = Inr False"
    by (simp add: w' red_def res_defs and_minus_2_red)
qed

lemma setRed_irreducible_narrow:
  assumes "bits \<le> 32" and "take_bit bits (data2 w) = data2 w" and "data2 w AND 1 = 0"
  shows "setRed False bits False w = Inr w"
    and "setRed True bits False w = Inl AssertionFailed"
proof -
  show "setRed False bits False w = Inr w"
    by (simp add: setRed_no_debug clear_flag_narrow [OF assms(1,2)] and_minus_2_irreducible [OF assms(3)])
  show "setRed True bits False w = Inl AssertionFailed"
    using assms(3) by (rule setRed_debug_irreducible)
qed

lemma setRed_twice:
  assumes "setRed dbg bits False w = Inr w'"
  shows "setRed False bits False w' = Inr w'"
    and "setRed True bits False w' = Inl AssertionFailed"
proof -
  note w' = setRed_Inr [OF assms]
  show "setRed False bits False w' = Inr w'"
    using w' by (simp add: setRed_no_debug clear_flag_twice)
  have "bitfield bits (data2 w AND 4294967294) AND 1 = 0"
    unfolding bitfield_def
    by (rule bit_eqI)
      (auto simp add: bit_take_bit_iff bit_and_iff bit_clear_mask32 bit_1_iff
        simp del: bit_numeral_word_iff)
  with w' have "data2 w' AND 1 = 0"
    by simp
  then show "setRed True bits False w' = Inl AssertionFailed"
    by (rule setRed_debug_irreducible)
qed

text \<open>
  C9. \<open>setRed(false)\<close> on a redundant binary record is to change the redundant flag
  only. At a 62-bit budget the 32-bit mask of \<open>setRed\<close> also clears bits 32 to 61 of the
  second word: a record with identifier \<open>2 ^ 30\<close> reads back identifier 0 afterwards.
  Up to a 32-bit budget the frame property holds (\<open>setRed_frame_narrow\<close>).
\<close>

theorem C9_setRed_wide_identifier:
  "red False (Watched_bin 62 (Lit 0) True (2 ^ 30)) = Inr True
 \<and> get_ID False (Watched_bin 62 (Lit 0) True (2 ^ 30)) = Inr (2 ^ 30)
 \<and> setRed False 62 False (Watched_bin 62 (Lit 0) True (2 ^ 30))
      = Inr (Watched_bin 62 (Lit 0) False 0)
 \<and> setRed True 62 False (Watched_bin 62 (Lit 0) True (2 ^ 30))
      = Inr (Watched_bin 62 (Lit 0) False 0)
 \<and> get_ID False (Watched_bin 62 (Lit 0) False 0) = Inr 0
 \<and> (2 ^ 30 :: uint64_t) \<noteq> 0"
  by (simp add: setRed_def red_def get_ID_def Watched_bin_def res_defs tag_defs bitfield_def)

text \<open>
  C3. \<open>setRed(false)\<close> on an irreducible binary record is to be a no-op or rejected. At
  a 62-bit budget, with the debug checks off, the call is accepted and changes the record:
  the identifier \<open>2 ^ 30\<close> is cleared. Up to a 32-bit budget the call is a no-op, or
  rejected with the debug checks on (\<open>setRed_irreducible_narrow\<close>); at every budget a
  second call changes nothing (\<open>setRed_twice\<close>).
\<close>

theorem C3_setRed_irreducible_wide:
  "red False (Watched_bin 62 (Lit 0) False (2 ^ 30)) = Inr False
 \<and> get_ID False (Watched_bin 62 (Lit 0) False (2 ^ 30)) = Inr (2 ^ 30)
 \<and> setRed False 62 False (Watched_bin 62 (Lit 0) False (2 ^ 30))
      = Inr (Watched_bin 62 (Lit 0) False 0)
 \<and> get_ID False (Watched_bin 62 (Lit 0) False 0) = Inr 0
 \<and> Watched_bin 62 (Lit 0) False 0 \<noteq> Watched_bin 62 (Lit 0) False (2 ^ 30)"
  by (simp add: setRed_def red_def get_ID_def Watched_bin_def res_defs tag_defs bitfield_def)

end
